theory Spec2Isabelle
  imports Complex_Main "HOL-Library.Product_Lexorder"
begin

section \<open>JavaScript values\<close>

text \<open>
  The message handler works on whatever \<^verbatim>\<open>JSON.parse\<close> returns, so the model keeps
  JavaScript's dynamic values: \<^verbatim>\<open>undefined\<close>, \<^verbatim>\<open>null\<close>, booleans, numbers, strings,
  arrays and objects. A number is an IEEE double: \<open>JNum x\<close> is the finite double of
  value \<open>x\<close> (a real that is no double does not occur in a parsed message; the two
  zeros are one value here, which no operation of the program tells apart), \<open>JInf\<close> is
  an infinity (\<open>JInf True\<close> the negative one) and \<open>JNaN\<close> is \<^verbatim>\<open>NaN\<close>. A string is the
  list of its bytes in UTF-8. An object is the list of its own properties.
\<close>

datatype js =
    JUndefined
  | JNull
  | JBool bool
  | JNum real
  | JInf bool
  | JNaN
  | JStr string
  | JArr "js list"
  | JObj "(string \<times> js) list"

datatype js_error = SyntaxError | TypeError

text \<open>ToBoolean: what \<^verbatim>\<open>if (v)\<close>, \<^verbatim>\<open>v && w\<close>, \<^verbatim>\<open>v || w\<close> and \<^verbatim>\<open>v ? a : b\<close> test.\<close>

fun truthy :: "js \<Rightarrow> bool" where
  "truthy JUndefined = False"
| "truthy JNull = False"
| "truthy (JBool b) = b"
| "truthy (JNum x) = (x \<noteq> 0)"
| "truthy (JInf negative) = True"
| "truthy JNaN = False"
| "truthy (JStr s) = (s \<noteq> [])"
| "truthy (JArr xs) = True"
| "truthy (JObj kvs) = True"

text \<open>\<^verbatim>\<open>a || b\<close>: the left operand when it is truthy, the right one otherwise.\<close>

definition js_or :: "js \<Rightarrow> js \<Rightarrow> js" where
  "js_or a b = (if truthy a then a else b)"

text \<open>
  \<^verbatim>\<open>v.k\<close> raises a TypeError on \<^verbatim>\<open>undefined\<close> and \<^verbatim>\<open>null\<close>. On an object it is the
  own property, or \<^verbatim>\<open>undefined\<close>. On the other values it is \<^verbatim>\<open>undefined\<close> for every
  property name the program reads (none of them is \<^verbatim>\<open>length\<close>, an index or a
  prototype method).
\<close>

fun js_get :: "js \<Rightarrow> string \<Rightarrow> js_error + js" where
  "js_get JUndefined k = Inl TypeError"
| "js_get JNull k = Inl TypeError"
| "js_get (JObj kvs) k = Inr (case map_of kvs k of None \<Rightarrow> JUndefined | Some v \<Rightarrow> v)"
| "js_get v k = Inr JUndefined"

text \<open>\<^verbatim>\<open>v?.k\<close>: \<^verbatim>\<open>undefined\<close> when \<^verbatim>\<open>v\<close> is \<^verbatim>\<open>undefined\<close> or \<^verbatim>\<open>null\<close>, never an error.\<close>

fun js_get_opt :: "js \<Rightarrow> string \<Rightarrow> js" where
  "js_get_opt (JObj kvs) k = (case map_of kvs k of None \<Rightarrow> JUndefined | Some v \<Rightarrow> v)"
| "js_get_opt v k = JUndefined"

subsection \<open>Conversion to string\<close>

definition digit_char :: "nat \<Rightarrow> char" where
  "digit_char d = ''0123456789'' ! (d mod 10)"

function digits :: "nat \<Rightarrow> string" where
  "digits n = (if n < 10 then [digit_char n] else digits (n div 10) @ [digit_char (n mod 10)])"
  by pat_completeness auto
termination
  by (relation "measure id") auto

declare digits.simps [simp del]

subsection \<open>Rounding to a double\<close>

text \<open>The number of bits of a natural number.\<close>

function bit_length :: "nat \<Rightarrow> nat" where
  "bit_length n = (if n = 0 then 0 else Suc (bit_length (n div 2)))"
  by pat_completeness auto
termination
  by (relation "measure id") auto

declare bit_length.simps [simp del]

text \<open>The result of an arithmetic operation: a finite value, an infinity or \<^verbatim>\<open>NaN\<close>.\<close>

datatype number = Finite real | Infinite bool | NotANumber

text \<open>The integer nearest to \<open>y\<close>, the even one of two that are equally near.\<close>

definition round_half_even :: "real \<Rightarrow> int" where
  "round_half_even y =
     (let f = \<lfloor>y\<rfloor>; d = y - of_int f
      in if d < 1 / 2 then f else if d > 1 / 2 then f + 1 else if even f then f else f + 1)"

text \<open>For \<open>a > 0\<close>, the \<open>e\<close> with \<open>2^e \<le> a < 2^(e+1)\<close>.\<close>

definition binary_exponent :: "real \<Rightarrow> int" where
  "binary_exponent a =
     (if a \<ge> 1 then int (bit_length (nat \<lfloor>a\<rfloor>)) - 1
      else - int (bit_length (nat \<lceil>1 / a\<rceil> - 1)))"

text \<open>
  The double nearest to a real, ties to even: 53 significant bits, the exponent not
  below -1022 (below it the doubles are the multiples of \<open>2^-1074\<close>), and an infinity
  when the rounded value reaches \<open>2^1024\<close>.
\<close>

definition round_double :: "real \<Rightarrow> number" where
  "round_double x =
     (if x = 0 then Finite 0
      else let a = \<bar>x\<bar>;
               q = max (binary_exponent a) (- 1022) - 52;
               v = of_int (round_half_even (a / 2 powi q)) * 2 powi q
           in if v \<ge> 2 powi 1024 then Infinite (x < 0)
              else Finite (if x < 0 then - v else v))"


subsection \<open>Number::toString\<close>

text \<open>For \<open>a > 0\<close>, the \<open>n\<close> with \<open>10^(n-1) \<le> a < 10^n\<close>.\<close>

definition decimal_exponent :: "real \<Rightarrow> int" where
  "decimal_exponent a =
     (if a \<ge> 1 then int (length (digits (nat \<lfloor>a\<rfloor>)))
      else 1 - int (length (digits (nat \<lceil>1 / a\<rceil> - 1))))"

text \<open>
  The decimals \<open>s * 10^(n-k)\<close> of \<open>k\<close> digits (\<open>10^(k-1) \<le> s < 10^k\<close>) whose nearest
  double is \<open>a\<close>: they are among the two neighbours of \<open>a\<close> with \<open>k\<close> digits and the
  next power of ten.
\<close>

definition candidates :: "real \<Rightarrow> nat \<Rightarrow> (int \<times> nat) list" where
  "candidates a k =
     (let n = decimal_exponent a;
          lo = nat \<lfloor>a / 10 powi (n - int k)\<rfloor>
      in filter (\<lambda>(n, s). 10 ^ (k - 1) \<le> s \<and> s < 10 ^ k \<and>
                           round_double (real s * 10 powi (n - int k)) = Finite a)
           [(n, lo), (n, lo + 1), (n + 1, 10 ^ (k - 1))])"

text \<open>Of two such decimals the one nearer to \<open>a\<close>, the even one when both are as near.\<close>

definition closer :: "real \<Rightarrow> nat \<Rightarrow> int \<times> nat \<Rightarrow> int \<times> nat \<Rightarrow> int \<times> nat" where
  "closer a k c d =
     (let dc = \<bar>real (snd c) * 10 powi (fst c - int k) - a\<bar>;
          dd = \<bar>real (snd d) * 10 powi (fst d - int k) - a\<bar>
      in if dd < dc \<or> (dd = dc \<and> even (snd d) \<and> odd (snd c)) then d else c)"

text \<open>
  The shortest decimal that reads back as the double \<open>a\<close>: the least \<open>k\<close>, from \<open>k\<close>
  upwards, that has such a decimal, with \<open>n\<close> and \<open>s\<close>. Seventeen digits always
  suffice for a double; the first equation is reached for a real that is no double.
\<close>

fun shortest :: "real \<Rightarrow> nat \<Rightarrow> nat \<Rightarrow> nat \<times> int \<times> nat" where
  "shortest a k 0 = (k, decimal_exponent a, nat \<lfloor>a / 10 powi (decimal_exponent a - int k)\<rfloor>)"
| "shortest a k (Suc fuel) =
     (case candidates a k of
        [] \<Rightarrow> shortest a (Suc k) fuel
      | c # cs \<Rightarrow> (k, foldl (closer a k) c cs))"

definition exponent_text :: "int \<Rightarrow> string" where
  "exponent_text e = (if e < 0 then ''e-'' else ''e+'') @ digits (nat \<bar>e\<bar>)"

text \<open>
  The text of the digits \<open>ds\<close> of \<open>s\<close>: padded with zeros, with a decimal point inside,
  behind \<^verbatim>\<open>0.\<close> and zeros, or in exponent notation.
\<close>

definition format_digits :: "nat \<Rightarrow> int \<Rightarrow> string \<Rightarrow> string" where
  "format_digits k n ds =
     (if int k \<le> n \<and> n \<le> 21 then ds @ replicate (nat (n - int k)) CHR ''0''
      else if 0 < n \<and> n \<le> 21 then take (nat n) ds @ ''.'' @ drop (nat n) ds
      else if - 6 < n \<and> n \<le> 0 then ''0.'' @ replicate (nat (- n)) CHR ''0'' @ ds
      else if k = 1 then ds @ exponent_text (n - 1)
      else take 1 ds @ ''.'' @ drop 1 ds @ exponent_text (n - 1))"

text \<open>
  Number::toString of a finite double. An integer up to \<open>2^53\<close> in absolute value
  prints as its decimal digits (every shorter decimal is another integer, hence another
  double); any other double prints the shortest decimal that reads back as it.
\<close>

definition number_to_string :: "real \<Rightarrow> string" where
  "number_to_string x =
     (if x = of_int \<lfloor>x\<rfloor> \<and> \<bar>x\<bar> \<le> 9007199254740992
      then (if x < 0 then ''-'' else []) @ digits (nat \<lfloor>\<bar>x\<bar>\<rfloor>)
      else (case shortest \<bar>x\<bar> 1 17 of
              (k, n, s) \<Rightarrow> (if x < 0 then ''-'' else []) @ format_digits k n (digits s)))"

fun join_comma :: "string list \<Rightarrow> string" where
  "join_comma [] = []"
| "join_comma [s] = s"
| "join_comma (s # t # ss) = s @ '','' @ join_comma (t # ss)"

text \<open>
  \<^verbatim>\<open>String(v)\<close>, which a template literal applies as well. An array prints its elements
  joined by commas, \<^verbatim>\<open>null\<close> and \<^verbatim>\<open>undefined\<close> elements as the empty string.
\<close>

fun js_String :: "js \<Rightarrow> string" where
  "js_String JUndefined = ''undefined''"
| "js_String JNull = ''null''"
| "js_String (JBool b) = (if b then ''true'' else ''false'')"
| "js_String (JNum x) = number_to_string x"
| "js_String (JInf negative) = (if negative then ''-Infinity'' else ''Infinity'')"
| "js_String JNaN = ''NaN''"
| "js_String (JStr s) = s"
| "js_String (JArr xs) =
     join_comma (map (\<lambda>v. if v = JUndefined \<or> v = JNull then [] else js_String v) xs)"
| "js_String (JObj kvs) = ''[object Object]''"

section \<open>The store\<close>

text \<open>
  Timestamps are microseconds on the store's clock, the resolution of a Postgres
  \<^verbatim>\<open>TIMESTAMP\<close>. A column that the statements fill from a query parameter holds the
  parameter as it was passed, \<open>JNull\<close> standing for SQL NULL. The store accepts every
  statement: the conversion of a parameter to the column's type inside Postgres, and
  its failure on a parameter of the wrong type, are outside the repository and are
  not modelled.
\<close>

type_synonym time = int

text \<open>A row of \<^verbatim>\<open>vessels\<close>; the primary key \<^verbatim>\<open>mmsi\<close> is the key of the table's map.\<close>

record vessel =
  name :: js
  vessel_type :: js
  callsign :: js
  imo :: js
  flag :: js
  length_col :: js
  width :: js
  last_latitude :: js
  last_longitude :: js
  last_speed :: js
  last_heading :: js
  last_position_time :: "time option"
  updated_at :: "time option"

text \<open>A row of \<^verbatim>\<open>ais_positions\<close>.\<close>

record position =
  id_col :: nat
  mmsi :: string
  vessel_name :: js
  latitude :: js
  longitude :: js
  speed :: js
  heading :: js
  course :: js
  nav_status :: string
  timestamp :: time
  message_type :: string
  created_at :: "time option"

text \<open>
  The two tables and the sequence behind the \<^verbatim>\<open>SERIAL\<close> column. The history table is
  the list of its rows in insertion order.
\<close>

record store =
  vessels :: "string \<Rightarrow> vessel option"
  ais_positions :: "position list"
  next_id :: nat

definition empty_store :: store where
  "empty_store = \<lparr>vessels = Map.empty, ais_positions = [], next_id = 1\<rparr>"

text \<open>
  \<^verbatim>\<open>INSERT INTO ais_positions (mmsi, vessel_name, latitude, longitude, speed, heading,
  course, nav_status, timestamp, message_type) VALUES ($1, ..., $8, NOW(), $9)\<close>.
  The column \<^verbatim>\<open>created_at\<close> takes its default \<^verbatim>\<open>NOW()\<close>, which within one statement is
  the same instant as the \<^verbatim>\<open>NOW()\<close> of the \<^verbatim>\<open>timestamp\<close> column.
\<close>

definition insert_position ::
  "time \<Rightarrow> string \<Rightarrow> js \<Rightarrow> js \<Rightarrow> js \<Rightarrow> js \<Rightarrow> js \<Rightarrow> js \<Rightarrow> string \<Rightarrow> string \<Rightarrow> store \<Rightarrow> store" where
  "insert_position now p1 p2 p3 p4 p5 p6 p7 p8 p9 st =
     st\<lparr>ais_positions := ais_positions st @
          [\<lparr>id_col = next_id st, mmsi = p1, vessel_name = p2, latitude = p3,
            longitude = p4, speed = p5, heading = p6, course = p7, nav_status = p8,
            timestamp = now, message_type = p9, created_at = Some now\<rparr>],
        next_id := Suc (next_id st)\<rparr>"

text \<open>
  \<^verbatim>\<open>INSERT INTO vessels (mmsi, name, last_latitude, last_longitude, last_speed,
  last_heading, last_position_time, updated_at) VALUES ($1, ..., $6, NOW(), NOW())
  ON CONFLICT (mmsi) DO UPDATE SET last_latitude = $3, last_longitude = $4,
  last_speed = $5, last_heading = $6, last_position_time = NOW(), updated_at = NOW()\<close>.
\<close>

definition upsert_vessel_position ::
  "time \<Rightarrow> string \<Rightarrow> js \<Rightarrow> js \<Rightarrow> js \<Rightarrow> js \<Rightarrow> js \<Rightarrow> store \<Rightarrow> store" where
  "upsert_vessel_position now p1 p2 p3 p4 p5 p6 st =
     st\<lparr>vessels := (vessels st)(p1 \<mapsto>
        (case vessels st p1 of
           None \<Rightarrow>
             \<lparr>name = p2, vessel_type = JNull, callsign = JNull, imo = JNull, flag = JNull,
              length_col = JNull, width = JNull, last_latitude = p3, last_longitude = p4,
              last_speed = p5, last_heading = p6, last_position_time = Some now,
              updated_at = Some now\<rparr>
         | Some r \<Rightarrow>
             r\<lparr>last_latitude := p3, last_longitude := p4, last_speed := p5,
               last_heading := p6, last_position_time := Some now,
               updated_at := Some now\<rparr>))\<rparr>"

text \<open>
  \<^verbatim>\<open>INSERT INTO vessels (mmsi, name, callsign, imo, vessel_type, length, width,
  updated_at) VALUES ($1, ..., $7, NOW()) ON CONFLICT (mmsi) DO UPDATE SET name = $2,
  callsign = $3, imo = $4, vessel_type = $5, length = $6, width = $7,
  updated_at = NOW()\<close>.
\<close>

definition upsert_vessel_static ::
  "time \<Rightarrow> string \<Rightarrow> js \<Rightarrow> js \<Rightarrow> js \<Rightarrow> js \<Rightarrow> js \<Rightarrow> js \<Rightarrow> store \<Rightarrow> store" where
  "upsert_vessel_static now p1 p2 p3 p4 p5 p6 p7 st =
     st\<lparr>vessels := (vessels st)(p1 \<mapsto>
        (case vessels st p1 of
           None \<Rightarrow>
             \<lparr>name = p2, vessel_type = p5, callsign = p3, imo = p4, flag = JNull,
              length_col = p6, width = p7, last_latitude = JNull, last_longitude = JNull,
              last_speed = JNull, last_heading = JNull, last_position_time = None,
              updated_at = Some now\<rparr>
         | Some r \<Rightarrow>
             r\<lparr>name := p2, callsign := p3, imo := p4, vessel_type := p5,
               length_col := p6, width := p7, updated_at := Some now\<rparr>))\<rparr>"

section \<open>Operators the handler uses\<close>

text \<open>
  \<^verbatim>\<open>a + b\<close>: arrays and objects are first converted to strings; when either operand
  is then a string the result is the concatenation of both as strings, otherwise both
  are converted to numbers (\<^verbatim>\<open>undefined\<close> to \<^verbatim>\<open>NaN\<close>, \<^verbatim>\<open>null\<close> to 0, \<^verbatim>\<open>true\<close> to 1)
  and added.
\<close>

fun to_primitive :: "js \<Rightarrow> js" where
  "to_primitive (JArr xs) = JStr (js_String (JArr xs))"
| "to_primitive (JObj kvs) = JStr (js_String (JObj kvs))"
| "to_primitive v = v"

fun is_string :: "js \<Rightarrow> bool" where
  "is_string (JStr s) = True"
| "is_string v = False"

text \<open>ToNumber on the values that are neither strings nor objects.\<close>

fun to_number :: "js \<Rightarrow> number" where
  "to_number JNull = Finite 0"
| "to_number (JBool b) = Finite (if b then 1 else 0)"
| "to_number (JNum x) = Finite x"
| "to_number (JInf negative) = Infinite negative"
| "to_number v = NotANumber"

fun of_number :: "number \<Rightarrow> js" where
  "of_number (Finite x) = JNum x"
| "of_number (Infinite negative) = JInf negative"
| "of_number NotANumber = JNaN"

text \<open>
  The sum of two numbers: the exact sum of two finite doubles, rounded to a double;
  opposite infinities and \<^verbatim>\<open>NaN\<close> give \<^verbatim>\<open>NaN\<close>.
\<close>

fun add_number :: "number \<Rightarrow> number \<Rightarrow> number" where
  "add_number (Finite x) (Finite y) = round_double (x + y)"
| "add_number (Finite x) (Infinite n) = Infinite n"
| "add_number (Infinite m) (Finite y) = Infinite m"
| "add_number (Infinite m) (Infinite n) = (if m = n then Infinite m else NotANumber)"
| "add_number a b = NotANumber"

definition js_add :: "js \<Rightarrow> js \<Rightarrow> js" where
  "js_add a b =
     (let pa = to_primitive a; pb = to_primitive b
      in if is_string pa \<or> is_string pb then JStr (js_String pa @ js_String pb)
         else of_number (add_number (to_number pa) (to_number pb)))"

text \<open>
  \<^verbatim>\<open>s.toLowerCase()\<close> and \<^verbatim>\<open>s.includes(t)\<close>. Only ASCII letters are lowered; no other
  character has a lower case with one of the letters of \<^verbatim>\<open>yacht\<close> in it, which is all
  the program asks of the result.
\<close>

definition lower_char :: "char \<Rightarrow> char" where
  "lower_char c =
     (case map_of (zip ''ABCDEFGHIJKLMNOPQRSTUVWXYZ'' ''abcdefghijklmnopqrstuvwxyz'') c of
        None \<Rightarrow> c | Some l \<Rightarrow> l)"

definition toLowerCase :: "string \<Rightarrow> string" where
  "toLowerCase s = map lower_char s"

fun starts_with :: "string \<Rightarrow> string \<Rightarrow> bool" where
  "starts_with s [] = True"
| "starts_with [] (c # t) = False"
| "starts_with (d # s) (c # t) = (d = c \<and> starts_with s t)"

fun includes_str :: "string \<Rightarrow> string \<Rightarrow> bool" where
  "includes_str [] t = (t = [])"
| "includes_str (d # s) t = (starts_with (d # s) t \<or> includes_str s t)"

section \<open>The message handler of \<^verbatim>\<open>connectAIS\<close>\<close>

text \<open>
  A failure inside the handler is a value: \<open>Inl\<close> of the error raised, \<open>Inr\<close> of the
  result otherwise; \<open>bind\<close> sequences two steps and stops at the first error.
\<close>

definition bind :: "js_error + 'a \<Rightarrow> ('a \<Rightarrow> js_error + 'b) \<Rightarrow> js_error + 'b" where
  "bind r f = (case r of Inl e \<Rightarrow> Inl e | Inr v \<Rightarrow> f v)"

text \<open>
  The store's clock is read by \<^verbatim>\<open>NOW()\<close> inside each statement. The handler has three
  \<^verbatim>\<open>pool.query\<close> calls; \<open>now 0\<close>, \<open>now 1\<close> and \<open>now 2\<close> are the clock when the store
  executes the history insert, the position upsert and the static upsert.
\<close>

type_synonym clock = "nat \<Rightarrow> time"

text \<open>
  The first \<^verbatim>\<open>if\<close> of the handler: the branch for \<^verbatim>\<open>PositionReport\<close> messages.
\<close>

definition position_branch :: "clock \<Rightarrow> js \<Rightarrow> store \<Rightarrow> js_error + store" where
  "position_branch now msg st =
     bind (js_get msg ''MessageType'') (\<lambda>mt.
     if mt \<noteq> JStr ''PositionReport'' then Inr st else
     bind (js_get msg ''Message'') (\<lambda>m.
     if \<not> truthy (js_get_opt m ''PositionReport'') then Inr st else
     bind (js_get m ''PositionReport'') (\<lambda>pos.
     bind (js_get msg ''MetaData'') (\<lambda>meta.
     if \<not> truthy (js_get_opt meta ''MMSI'') then Inr st else
     bind (js_get pos ''Latitude'') (\<lambda>lat.
     if \<not> truthy lat then Inr st else
     bind (js_get pos ''Longitude'') (\<lambda>lon.
     if \<not> truthy lon then Inr st else
     bind (js_get meta ''MMSI'') (\<lambda>mmsi.
     bind (js_get meta ''ShipName'') (\<lambda>shipName.
     bind (js_get pos ''Sog'') (\<lambda>sog.
     bind (js_get pos ''TrueHeading'') (\<lambda>trueHeading.
     bind (js_get pos ''Cog'') (\<lambda>cog.
     bind (js_get pos ''NavigationalStatus'') (\<lambda>navStatus.
     Inr (upsert_vessel_position (now 1)
            (js_String mmsi)
            (js_or shipName (JStr (''Vessel '' @ js_String mmsi)))
            lat lon (js_or sog (JNum 0)) (js_or trueHeading (JNum 0))
          (insert_position (now 0)
            (js_String mmsi)
            (js_or shipName JNull)
            lat lon (js_or sog (JNum 0)) (js_or trueHeading (JNum 0))
            (js_or cog (JNum 0))
            (js_String (js_or navStatus (JNum 0)))
            ''PositionReport'' st))))))))))))))"

text \<open>
  The repository holds the handler in three revisions. They differ in one parameter
  of the static upsert, the vessel type: \<^verbatim>\<open>src/index.js\<close> stores \<^verbatim>\<open>'yacht'\<close> for the ship
  types it takes for yachts, the two revisions in \<^verbatim>\<open>src/unnamed/part_001\<close> store the ship
  type itself.
\<close>

datatype revision = AllVessels | YachtsOnly

definition isYacht :: "string \<Rightarrow> bool" where
  "isYacht shipType =
     (shipType = ''36'' \<or> shipType = ''37'' \<or> includes_str (toLowerCase shipType) ''yacht'')"

definition vessel_type_param :: "revision \<Rightarrow> string \<Rightarrow> string" where
  "vessel_type_param rv shipType =
     (case rv of
        AllVessels \<Rightarrow> shipType
      | YachtsOnly \<Rightarrow> if isYacht shipType then ''yacht'' else shipType)"

text \<open>
  \<^verbatim>\<open>(ship.Dimension?.A || 0) + (ship.Dimension?.B || 0) || null\<close>, and the same for C and D.
\<close>

definition dimension_param :: "js \<Rightarrow> string \<Rightarrow> string \<Rightarrow> js" where
  "dimension_param dimension a b =
     js_or (js_add (js_or (js_get_opt dimension a) (JNum 0)) (js_or (js_get_opt dimension b) (JNum 0))) JNull"

text \<open>The second \<^verbatim>\<open>if\<close> of the handler: the branch for \<^verbatim>\<open>ShipStaticData\<close> messages.\<close>

definition static_branch :: "revision \<Rightarrow> clock \<Rightarrow> js \<Rightarrow> store \<Rightarrow> js_error + store" where
  "static_branch rv now msg st =
     bind (js_get msg ''MessageType'') (\<lambda>mt.
     if mt \<noteq> JStr ''ShipStaticData'' then Inr st else
     bind (js_get msg ''Message'') (\<lambda>m.
     if \<not> truthy (js_get_opt m ''ShipStaticData'') then Inr st else
     bind (js_get m ''ShipStaticData'') (\<lambda>ship.
     bind (js_get msg ''MetaData'') (\<lambda>meta.
     if \<not> truthy (js_get_opt meta ''MMSI'') then Inr st else
     bind (js_get ship ''Type'') (\<lambda>ty.
     bind (js_get meta ''MMSI'') (\<lambda>mmsi.
     bind (js_get ship ''Name'') (\<lambda>shipName.
     bind (js_get meta ''ShipName'') (\<lambda>metaName.
     bind (js_get ship ''CallSign'') (\<lambda>callSign.
     bind (js_get ship ''ImoNumber'') (\<lambda>imoNumber.
     bind (js_get ship ''Dimension'') (\<lambda>dimension.
     Inr (upsert_vessel_static (now 2)
            (js_String mmsi)
            (js_or shipName (js_or metaName (JStr (''Vessel '' @ js_String mmsi))))
            (js_or callSign JNull)
            (if truthy imoNumber then JStr (js_String imoNumber) else JNull)
            (JStr (vessel_type_param rv (js_String (js_or ty (JStr ''unknown'')))))
            (dimension_param dimension ''A'' ''B'')
            (dimension_param dimension ''C'' ''D'')
            st))))))))))))"

text \<open>
  The body of the \<^verbatim>\<open>try\<close> block. \<open>parsed\<close> is the outcome of \<^verbatim>\<open>JSON.parse(data)\<close>:
  a SyntaxError for data that is not JSON, the parsed value otherwise.
\<close>

definition handler_body ::
  "revision \<Rightarrow> clock \<Rightarrow> js_error + js \<Rightarrow> store \<Rightarrow> js_error + store" where
  "handler_body rv now parsed st =
     bind parsed (\<lambda>msg.
     bind (position_branch now msg st) (\<lambda>st1.
     static_branch rv now msg st1))"

text \<open>
  What running the handler leaves behind: the store, and the error that the
  \<^verbatim>\<open>catch\<close> block logged (if any) or the one that left the handler (if any).
\<close>

record outcome =
  result :: store
  logged :: "js_error option"
  escaped :: "js_error option"

text \<open>
  The handler: the whole body is inside \<^verbatim>\<open>try\<close>, and the \<^verbatim>\<open>catch\<close> block only logs.
  An error is raised before the first statement is sent, so the store is then as it
  was.
\<close>

definition on_message :: "revision \<Rightarrow> clock \<Rightarrow> js_error + js \<Rightarrow> store \<Rightarrow> outcome" where
  "on_message rv now parsed st =
     (case handler_body rv now parsed st of
        Inl e \<Rightarrow> \<lparr>result = st, logged = Some e, escaped = None\<rparr>
      | Inr st' \<Rightarrow> \<lparr>result = st', logged = None, escaped = None\<rparr>)"

text \<open>
  The guards and the writes of the two branches, in terms of the fields of the message.
  \<open>position_guard\<close> is the condition under which the first branch reaches its two
  statements, \<open>position_writes\<close> is what the two statements then do; likewise for the
  second branch.
\<close>

definition nullish :: "js \<Rightarrow> bool" where
  "nullish v = (v = JUndefined \<or> v = JNull)"

definition msg_type :: "js \<Rightarrow> js" where
  "msg_type msg = js_get_opt msg ''MessageType''"

definition meta_field :: "js \<Rightarrow> string \<Rightarrow> js" where
  "meta_field msg k = js_get_opt (js_get_opt msg ''MetaData'') k"

definition pos_field :: "js \<Rightarrow> string \<Rightarrow> js" where
  "pos_field msg k = js_get_opt (js_get_opt (js_get_opt msg ''Message'') ''PositionReport'') k"

definition ship_field :: "js \<Rightarrow> string \<Rightarrow> js" where
  "ship_field msg k = js_get_opt (js_get_opt (js_get_opt msg ''Message'') ''ShipStaticData'') k"

definition position_guard :: "js \<Rightarrow> bool" where
  "position_guard msg =
     (msg_type msg = JStr ''PositionReport'' \<and>
      truthy (js_get_opt (js_get_opt msg ''Message'') ''PositionReport'') \<and>
      truthy (meta_field msg ''MMSI'') \<and>
      truthy (pos_field msg ''Latitude'') \<and> truthy (pos_field msg ''Longitude''))"

definition position_writes :: "clock \<Rightarrow> js \<Rightarrow> store \<Rightarrow> store" where
  "position_writes now msg st =
     upsert_vessel_position (now 1)
       (js_String (meta_field msg ''MMSI''))
       (js_or (meta_field msg ''ShipName'') (JStr (''Vessel '' @ js_String (meta_field msg ''MMSI''))))
       (pos_field msg ''Latitude'') (pos_field msg ''Longitude'')
       (js_or (pos_field msg ''Sog'') (JNum 0)) (js_or (pos_field msg ''TrueHeading'') (JNum 0))
     (insert_position (now 0)
       (js_String (meta_field msg ''MMSI''))
       (js_or (meta_field msg ''ShipName'') JNull)
       (pos_field msg ''Latitude'') (pos_field msg ''Longitude'')
       (js_or (pos_field msg ''Sog'') (JNum 0)) (js_or (pos_field msg ''TrueHeading'') (JNum 0))
       (js_or (pos_field msg ''Cog'') (JNum 0))
       (js_String (js_or (pos_field msg ''NavigationalStatus'') (JNum 0)))
       ''PositionReport'' st)"

definition static_guard :: "js \<Rightarrow> bool" where
  "static_guard msg =
     (msg_type msg = JStr ''ShipStaticData'' \<and>
      truthy (js_get_opt (js_get_opt msg ''Message'') ''ShipStaticData'') \<and>
      truthy (meta_field msg ''MMSI''))"

definition static_writes :: "revision \<Rightarrow> clock \<Rightarrow> js \<Rightarrow> store \<Rightarrow> store" where
  "static_writes rv now msg st =
     upsert_vessel_static (now 2)
       (js_String (meta_field msg ''MMSI''))
       (js_or (ship_field msg ''Name'')
          (js_or (meta_field msg ''ShipName'')
             (JStr (''Vessel '' @ js_String (meta_field msg ''MMSI'')))))
       (js_or (ship_field msg ''CallSign'') JNull)
       (if truthy (ship_field msg ''ImoNumber'')
        then JStr (js_String (ship_field msg ''ImoNumber'')) else JNull)
       (JStr (vessel_type_param rv (js_String (js_or (ship_field msg ''Type'') (JStr ''unknown'')))))
       (dimension_param (ship_field msg ''Dimension'') ''A'' ''B'')
       (dimension_param (ship_field msg ''Dimension'') ''C'' ''D'')
       st"

section \<open>Retention: \<^verbatim>\<open>cleanupOldData\<close>\<close>

text \<open>48 hours in microseconds.\<close>

definition hours48 :: time where
  "hours48 = 48 * 3600 * 1000000"

text \<open>
  \<^verbatim>\<open>created_at < NOW() - INTERVAL '48 hours'\<close>; a comparison with NULL is not true.
\<close>

definition older_than_48h :: "time \<Rightarrow> position \<Rightarrow> bool" where
  "older_than_48h now r = (case created_at r of None \<Rightarrow> False | Some c \<Rightarrow> c < now - hours48)"

text \<open>
  \<^verbatim>\<open>DELETE FROM ais_positions WHERE created_at < NOW() - INTERVAL '48 hours'\<close>,
  and the \<^verbatim>\<open>rowCount\<close> it reports.
\<close>

definition age_step :: "time \<Rightarrow> store \<Rightarrow> store" where
  "age_step now st =
     st\<lparr>ais_positions := filter (\<lambda>r. \<not> older_than_48h now r) (ais_positions st)\<rparr>"

definition age_step_rowCount :: "time \<Rightarrow> store \<Rightarrow> nat" where
  "age_step_rowCount now st = length (filter (older_than_48h now) (ais_positions st))"

text \<open>
  \<^verbatim>\<open>Math.ceil(count * 0.1)\<close> on IEEE doubles. The literal \<^verbatim>\<open>0.1\<close> is the double
  \<open>3602879701896397 / 2^55\<close>. The exact product \<open>count * 3602879701896397\<close> is rounded
  to 53 significant bits, ties to even, which gives the double \<open>round53 \<dots> / 2^55\<close>;
  \<^verbatim>\<open>Math.ceil\<close> then rounds up to an integer.
\<close>

definition tenth_significand :: nat where
  "tenth_significand = 3602879701896397"

definition round53 :: "nat \<Rightarrow> nat" where
  "round53 N =
     (if bit_length N \<le> 53 then N
      else let s = bit_length N - 53; q = N div 2 ^ s; r = N mod 2 ^ s; half = 2 ^ (s - 1)
           in (if r > half \<or> (r = half \<and> odd q) then q + 1 else q) * 2 ^ s)"

definition ceil_times_tenth :: "nat \<Rightarrow> nat" where
  "ceil_times_tenth n = (round53 (n * tenth_significand) + (2 ^ 55 - 1)) div 2 ^ 55"

text \<open>
  \<^verbatim>\<open>ORDER BY created_at ASC\<close> puts NULL last. Rows with equal keys stay in table
  order here; Postgres leaves their order open.
\<close>

definition created_at_key :: "position \<Rightarrow> nat \<times> time" where
  "created_at_key r = (case created_at r of None \<Rightarrow> (1, 0) | Some c \<Rightarrow> (0, c))"

text \<open>
  \<^verbatim>\<open>DELETE FROM ais_positions WHERE id IN (SELECT id FROM ais_positions
  ORDER BY created_at ASC LIMIT $1)\<close>.
\<close>

definition oldest_ids :: "nat \<Rightarrow> store \<Rightarrow> nat list" where
  "oldest_ids k st = map id_col (take k (sort_key created_at_key (ais_positions st)))"

definition delete_oldest :: "nat \<Rightarrow> store \<Rightarrow> store" where
  "delete_oldest k st =
     st\<lparr>ais_positions := filter (\<lambda>r. id_col r \<notin> set (oldest_ids k st)) (ais_positions st)\<rparr>"

text \<open>
  The size check and the delete behind it. \<open>size_bytes\<close> is what
  \<^verbatim>\<open>pg_database_size(current_database())\<close> reports; the division by \<open>2^30\<close> and the
  comparison with 70 are exact on doubles for a size below \<open>2^53\<close> bytes.
\<close>

definition size_step :: "nat \<Rightarrow> store \<Rightarrow> store" where
  "size_step size_bytes st =
     (let sizeGB = real size_bytes / (1024 * 1024 * 1024)
      in if sizeGB > 70
         then let count = length (ais_positions st);
                  toDelete = ceil_times_tenth count
              in delete_oldest toDelete st
         else st)"

text \<open>
  \<^verbatim>\<open>cleanupOldData\<close>: the age-based delete, then the size check. \<open>now\<close> is the store's
  clock when it executes the first delete.
\<close>

definition cleanupOldData :: "time \<Rightarrow> nat \<Rightarrow> store \<Rightarrow> store" where
  "cleanupOldData now size_bytes st = size_step size_bytes (age_step now st)"

section \<open>The history endpoint \<^verbatim>\<open>/api/positions\<close>\<close>

text \<open>
  The white space that \<^verbatim>\<open>parseInt\<close> skips (StrWhiteSpaceChar), in UTF-8: tab, line
  feed, vertical tab, form feed, carriage return, space, U+00A0, U+1680, U+2000 to
  U+200A, U+2028, U+2029, U+202F, U+205F, U+3000 and U+FEFF.
\<close>

definition white_space :: "string list" where
  "white_space =
     [[CHR 0x09], [CHR 0x0A], [CHR 0x0B], [CHR 0x0C], [CHR 0x0D], [CHR 0x20],
      [CHR 0xC2, CHR 0xA0], [CHR 0xE1, CHR 0x9A, CHR 0x80],
      [CHR 0xE2, CHR 0x80, CHR 0x80], [CHR 0xE2, CHR 0x80, CHR 0x81],
      [CHR 0xE2, CHR 0x80, CHR 0x82], [CHR 0xE2, CHR 0x80, CHR 0x83],
      [CHR 0xE2, CHR 0x80, CHR 0x84], [CHR 0xE2, CHR 0x80, CHR 0x85],
      [CHR 0xE2, CHR 0x80, CHR 0x86], [CHR 0xE2, CHR 0x80, CHR 0x87],
      [CHR 0xE2, CHR 0x80, CHR 0x88], [CHR 0xE2, CHR 0x80, CHR 0x89],
      [CHR 0xE2, CHR 0x80, CHR 0x8A], [CHR 0xE2, CHR 0x80, CHR 0xA8],
      [CHR 0xE2, CHR 0x80, CHR 0xA9], [CHR 0xE2, CHR 0x80, CHR 0xAF],
      [CHR 0xE2, CHR 0x81, CHR 0x9F], [CHR 0xE3, CHR 0x80, CHR 0x80],
      [CHR 0xEF, CHR 0xBB, CHR 0xBF]]"









section \<open>Messages named in the properties\<close>

fun is_object :: "js \<Rightarrow> bool" where
  "is_object (JObj kvs) = True"
| "is_object v = False"

text \<open>
  A message that is malformed or lacks a required field: data that is not JSON, JSON
  that is not an object, a position report without identity key, latitude or longitude,
  a static report without identity key. A field is lacking when it is absent or
  \<^verbatim>\<open>null\<close>; an identity key also when it is the empty string.
\<close>

definition invalid_message :: "js_error + js \<Rightarrow> bool" where
  "invalid_message parsed =
     (case parsed of
        Inl e \<Rightarrow> True
      | Inr msg \<Rightarrow>
          \<not> is_object msg \<or>
          (msg_type msg = JStr ''PositionReport'' \<and>
             (nullish (meta_field msg ''MMSI'') \<or> meta_field msg ''MMSI'' = JStr [] \<or>
              nullish (pos_field msg ''Latitude'') \<or> nullish (pos_field msg ''Longitude''))) \<or>
          (msg_type msg = JStr ''ShipStaticData'' \<and>
             (nullish (meta_field msg ''MMSI'') \<or> meta_field msg ''MMSI'' = JStr [])))"

text \<open>A position report that carries no latitude.\<close>

definition no_latitude_message :: js where
  "no_latitude_message =
     JObj [(''MessageType'', JStr ''PositionReport''),
           (''Message'', JObj [(''PositionReport'', JObj [(''Longitude'', JNum 20)])]),
           (''MetaData'', JObj [(''MMSI'', JNum 259000420)])]"

text \<open>A position report of a vessel on the equator: latitude 0, longitude 20.5.\<close>

definition equator_message :: js where
  "equator_message =
     JObj [(''MessageType'', JStr ''PositionReport''),
           (''Message'', JObj [(''PositionReport'',
              JObj [(''Latitude'', JNum 0), (''Longitude'', JNum 20.5), (''Sog'', JNum 7)])]),
           (''MetaData'', JObj [(''MMSI'', JNum 259000420)])]"

text \<open>
  The key of the vessel row a message writes, and the parameters of the static upsert.
\<close>

definition mmsi_key :: "js \<Rightarrow> string" where
  "mmsi_key msg = js_String (meta_field msg ''MMSI'')"

definition static_name :: "js \<Rightarrow> js" where
  "static_name msg =
     js_or (ship_field msg ''Name'')
       (js_or (meta_field msg ''ShipName'') (JStr (''Vessel '' @ mmsi_key msg)))"

definition static_imo :: "js \<Rightarrow> js" where
  "static_imo msg =
     (if truthy (ship_field msg ''ImoNumber'')
      then JStr (js_String (ship_field msg ''ImoNumber'')) else JNull)"

definition static_type :: "revision \<Rightarrow> js \<Rightarrow> js" where
  "static_type rv msg =
     JStr (vessel_type_param rv (js_String (js_or (ship_field msg ''Type'') (JStr ''unknown''))))"





text \<open>Messages in the format of the feed, from the payload and the metadata.\<close>

definition position_message :: "(string \<times> js) list \<Rightarrow> (string \<times> js) list \<Rightarrow> js" where
  "position_message report meta =
     JObj [(''MessageType'', JStr ''PositionReport''),
           (''Message'', JObj [(''PositionReport'', JObj report)]),
           (''MetaData'', JObj meta)]"

definition static_message :: "(string \<times> js) list \<Rightarrow> (string \<times> js) list \<Rightarrow> js" where
  "static_message ship meta =
     JObj [(''MessageType'', JStr ''ShipStaticData''),
           (''Message'', JObj [(''ShipStaticData'', JObj ship)]),
           (''MetaData'', JObj meta)]"

definition sample_report :: "(string \<times> js) list" where
  "sample_report =
     [(''Latitude'', JNum 10), (''Longitude'', JNum 20), (''Sog'', JNum 7.5),
      (''TrueHeading'', JNum 90), (''Cog'', JNum 88.5)]"

definition sample_meta :: "string \<Rightarrow> (string \<times> js) list" where
  "sample_meta time_utc =
     [(''MMSI'', JNum 259000420), (''ShipName'', JStr ''AURORA''),
      (''time_utc'', JStr time_utc)]"

definition sample_ship :: "(string \<times> js) list" where
  "sample_ship =
     [(''Name'', JStr ''AURORA''), (''CallSign'', JStr ''LK1234''), (''ImoNumber'', JNum 9123456),
      (''Type'', JNum 36),
      (''Dimension'', JObj [(''A'', JNum 10), (''B'', JNum 5), (''C'', JNum 2)])]"

definition sample_clock :: clock where
  "sample_clock n = 1000 + int n"


definition sample_vessel :: vessel where
  "sample_vessel =
     \<lparr>name = JStr ''AURORA'', vessel_type = JStr ''36'', callsign = JStr ''LK1234'',
      imo = JStr ''9123456'', flag = JNull, length_col = JNum 15, width = JNum 2,
      last_latitude = JNum 9, last_longitude = JNum 19, last_speed = JNum 5,
      last_heading = JNum 80, last_position_time = Some 500, updated_at = Some 600\<rparr>"

definition sample_store :: store where
  "sample_store =
     \<lparr>vessels = [''259000420'' \<mapsto> sample_vessel], ais_positions = [], next_id = 1\<rparr>"

section \<open>Notions the properties are stated with\<close>

text \<open>An hour in microseconds.\<close>

definition hour :: time where
  "hour = 3600 * 1000000"

text \<open>
  A history row is more than 48 hours old at \<open>now\<close> when its ingestion timestamp
  \<^verbatim>\<open>created_at\<close> lies more than 48 hours before \<open>now\<close>.
\<close>

definition more_than_48h_old :: "time \<Rightarrow> position \<Rightarrow> bool" where
  "more_than_48h_old now r = (case created_at r of None \<Rightarrow> False | Some c \<Rightarrow> now - c > 48 * hour)"

text \<open>A history row with the given id, ingested at the given time.\<close>

definition history_row :: "nat \<Rightarrow> time \<Rightarrow> position" where
  "history_row i t =
     \<lparr>id_col = i, mmsi = ''259000420'', vessel_name = JNull, latitude = JNum 10,
      longitude = JNum 20, speed = JNum 0, heading = JNum 0, course = JNum 0,
      nav_status = ''0'', timestamp = t, message_type = ''PositionReport'',
      created_at = Some t\<rparr>"


definition no_leading_space :: "string \<Rightarrow> bool" where
  "no_leading_space t = list_all (\<lambda>w. \<not> starts_with t w) white_space"



text \<open>
  Rounding to a multiple of \<open>2^s\<close>, ties to even: what \<open>round53\<close> does to a number
  of \<open>s + 53\<close> bits.
\<close>

definition round_at :: "nat \<Rightarrow> nat \<Rightarrow> nat" where
  "round_at s N =
     (if N mod 2 ^ s > 2 ^ (s - 1) \<or> (N mod 2 ^ s = 2 ^ (s - 1) \<and> odd (N div 2 ^ s))
      then N div 2 ^ s + 1 else N div 2 ^ s) * 2 ^ s"

text \<open>
  What the schema guarantees of the history table: \<^verbatim>\<open>id\<close> is the primary key, so no two
  rows share it, and it is a \<^verbatim>\<open>SERIAL\<close>, a 32-bit integer.
\<close>

definition valid_history :: "position list \<Rightarrow> bool" where
  "valid_history rows =
     (distinct (map id_col rows) \<and> list_all (\<lambda>r. id_col r \<le> 2147483647) rows)"

text \<open>A history table of three rows, ingested at 300, 100 and 200.\<close>

definition history_store :: store where
  "history_store =
     \<lparr>vessels = Map.empty,
      ais_positions = [history_row 1 300, history_row 2 100, history_row 3 200],
      next_id = 4\<rparr>"


text \<open>
  The ids of the history table are distinct and below the next value of the sequence.
\<close>

definition ids_fresh :: "store \<Rightarrow> bool" where
  "ids_fresh st =
     (distinct (map id_col (ais_positions st)) \<and>
      list_all (\<lambda>r. id_col r < next_id st) (ais_positions st))"


section \<open>Properties of the handler\<close>

subsection \<open>The handler in terms of its guards\<close>

lemma js_get_nullish: "nullish v \<Longrightarrow> js_get v k = Inl TypeError"
  by (auto simp: nullish_def)

lemma js_get_Inr: "\<not> nullish v \<Longrightarrow> js_get v k = Inr (js_get_opt v k)"
  by (cases v) (auto simp: nullish_def)

lemma truthy_not_nullish: "truthy v \<Longrightarrow> \<not> nullish v"
  by (auto simp: nullish_def)

lemma truthy_get_opt: "truthy (js_get_opt v k) \<Longrightarrow> \<not> nullish v"
  by (cases v) (auto simp: nullish_def)

lemma bind_Inr [simp]: "bind (Inr v) f = f v"
  by (simp add: bind_def)

lemma bind_Inl [simp]: "bind (Inl e) f = Inl e"
  by (simp add: bind_def)

lemma position_branch_nf:
  "position_branch now msg st =
     (if nullish msg then Inl TypeError
      else if position_guard msg then Inr (position_writes now msg st) else Inr st)"
proof (cases "nullish msg")
  case True
  then show ?thesis by (simp add: position_branch_def js_get_nullish)
next
  case nn: False
  show ?thesis
  proof (cases "position_guard msg")
    case True
    then have m: "\<not> nullish (js_get_opt msg ''Message'')"
      and p: "\<not> nullish (js_get_opt (js_get_opt msg ''Message'') ''PositionReport'')"
      and mt: "\<not> nullish (js_get_opt msg ''MetaData'')"
      by (auto simp: position_guard_def meta_field_def dest: truthy_get_opt truthy_not_nullish)
    from True nn m p mt show ?thesis
      by (simp add: position_branch_def position_guard_def position_writes_def js_get_Inr
          msg_type_def meta_field_def pos_field_def)
  next
    case False
    show ?thesis
    proof (cases "truthy (js_get_opt (js_get_opt msg ''Message'') ''PositionReport'')")
      case t: True
      then have m: "\<not> nullish (js_get_opt msg ''Message'')"
        and p: "\<not> nullish (js_get_opt (js_get_opt msg ''Message'') ''PositionReport'')"
        by (auto dest: truthy_get_opt truthy_not_nullish)
      show ?thesis
      proof (cases "truthy (meta_field msg ''MMSI'')")
        case True
        then have mt: "\<not> nullish (js_get_opt msg ''MetaData'')"
          by (auto simp: meta_field_def dest: truthy_get_opt)
        from False True nn m p mt t show ?thesis
          by (auto simp add: position_branch_def position_guard_def js_get_Inr
              msg_type_def meta_field_def pos_field_def)
      next
        case f: False
        from False f nn m p t show ?thesis
          by (auto simp add: position_branch_def position_guard_def js_get_Inr
              msg_type_def meta_field_def pos_field_def)
      qed
    next
      case f: False
      show ?thesis
      proof (cases "nullish (js_get_opt msg ''Message'')")
        case True
        with False f nn show ?thesis
          by (auto simp add: position_branch_def position_guard_def js_get_Inr
              msg_type_def )
      next
        case False
        with f nn show ?thesis
          by (auto simp add: position_branch_def position_guard_def js_get_Inr
              msg_type_def )
      qed
    qed
  qed
qed

lemma static_branch_nf:
  "static_branch rv now msg st =
     (if nullish msg then Inl TypeError
      else if static_guard msg then Inr (static_writes rv now msg st) else Inr st)"
proof (cases "nullish msg")
  case True
  then show ?thesis by (simp add: static_branch_def js_get_nullish)
next
  case nn: False
  show ?thesis
  proof (cases "truthy (js_get_opt (js_get_opt msg ''Message'') ''ShipStaticData'')")
    case t: True
    then have m: "\<not> nullish (js_get_opt msg ''Message'')"
      and p: "\<not> nullish (js_get_opt (js_get_opt msg ''Message'') ''ShipStaticData'')"
      by (auto dest: truthy_get_opt truthy_not_nullish)
    show ?thesis
    proof (cases "truthy (meta_field msg ''MMSI'')")
      case True
      then have mt: "\<not> nullish (js_get_opt msg ''MetaData'')"
        by (auto simp: meta_field_def dest: truthy_get_opt)
      from True nn m p mt t show ?thesis
        by (auto simp add: static_branch_def static_guard_def static_writes_def js_get_Inr
            msg_type_def meta_field_def ship_field_def)
    next
      case False
      with nn m p t show ?thesis
        by (auto simp add: static_branch_def static_guard_def js_get_Inr
            msg_type_def meta_field_def)
    qed
  next
    case f: False
    show ?thesis
    proof (cases "nullish (js_get_opt msg ''Message'')")
      case True
      with f nn show ?thesis
        by (auto simp add: static_branch_def static_guard_def js_get_Inr msg_type_def)
    next
      case False
      with f nn show ?thesis
        by (auto simp add: static_branch_def static_guard_def js_get_Inr msg_type_def)
    qed
  qed
qed

lemma guards_exclusive: "position_guard msg \<Longrightarrow> \<not> static_guard msg"
  by (simp add: position_guard_def static_guard_def)

lemma handler_body_nf:
  "handler_body rv now parsed st =
     (case parsed of
        Inl e \<Rightarrow> Inl e
      | Inr msg \<Rightarrow>
          if nullish msg then Inl TypeError
          else if position_guard msg then Inr (position_writes now msg st)
          else if static_guard msg then Inr (static_writes rv now msg st)
          else Inr st)"
  by (cases parsed)
     (auto simp: handler_body_def position_branch_nf static_branch_nf dest: guards_exclusive)

lemma result_on_message:
  "result (on_message rv now parsed st) =
     (case parsed of
        Inl e \<Rightarrow> st
      | Inr msg \<Rightarrow>
          if position_guard msg then position_writes now msg st
          else if static_guard msg then static_writes rv now msg st
          else st)"
proof (cases parsed)
  case (Inl e)
  then show ?thesis by (simp add: on_message_def handler_body_nf)
next
  case (Inr msg)
  have "nullish msg \<Longrightarrow> \<not> position_guard msg \<and> \<not> static_guard msg"
    by (auto simp: nullish_def position_guard_def static_guard_def msg_type_def)
  with Inr show ?thesis by (auto simp add: on_message_def handler_body_nf)
qed

lemma escaped_on_message: "escaped (on_message rv now parsed st) = None"
  by (simp add: on_message_def split: sum.splits)

lemma nullish_not_truthy: "nullish v \<Longrightarrow> \<not> truthy v"
  by (auto simp: nullish_def)

lemma not_object_no_guard:
  "\<not> is_object msg \<Longrightarrow> \<not> position_guard msg \<and> \<not> static_guard msg"
  by (cases msg) (auto simp: position_guard_def static_guard_def msg_type_def)

lemma result_position:
  "position_guard msg \<Longrightarrow> result (on_message rv now (Inr msg) st) = position_writes now msg st"
  by (simp add: result_on_message)


subsection \<open>What the two branches write\<close>

lemma ais_positions_position_writes:
  "ais_positions (position_writes now msg st) =
     ais_positions st @
       [\<lparr>id_col = next_id st, mmsi = mmsi_key msg,
         vessel_name = js_or (meta_field msg ''ShipName'') JNull,
         latitude = pos_field msg ''Latitude'', longitude = pos_field msg ''Longitude'',
         speed = js_or (pos_field msg ''Sog'') (JNum 0),
         heading = js_or (pos_field msg ''TrueHeading'') (JNum 0),
         course = js_or (pos_field msg ''Cog'') (JNum 0),
         nav_status = js_String (js_or (pos_field msg ''NavigationalStatus'') (JNum 0)),
         timestamp = now 0, message_type = ''PositionReport'', created_at = Some (now 0)\<rparr>]"
  by (simp add: position_writes_def upsert_vessel_position_def insert_position_def mmsi_key_def)

lemma vessels_position_writes_other:
  "k \<noteq> mmsi_key msg \<Longrightarrow> vessels (position_writes now msg st) k = vessels st k"
  by (simp add: position_writes_def upsert_vessel_position_def insert_position_def mmsi_key_def)

lemma vessels_position_writes_new:
  "vessels st (mmsi_key msg) = None \<Longrightarrow>
   vessels (position_writes now msg st) (mmsi_key msg) =
     Some \<lparr>name = js_or (meta_field msg ''ShipName'') (JStr (''Vessel '' @ mmsi_key msg)),
           vessel_type = JNull, callsign = JNull, imo = JNull, flag = JNull,
           length_col = JNull, width = JNull,
           last_latitude = pos_field msg ''Latitude'', last_longitude = pos_field msg ''Longitude'',
           last_speed = js_or (pos_field msg ''Sog'') (JNum 0),
           last_heading = js_or (pos_field msg ''TrueHeading'') (JNum 0),
           last_position_time = Some (now 1), updated_at = Some (now 1)\<rparr>"
  by (simp add: position_writes_def upsert_vessel_position_def insert_position_def mmsi_key_def)

lemma vessels_position_writes_old:
  "vessels st (mmsi_key msg) = Some r \<Longrightarrow>
   vessels (position_writes now msg st) (mmsi_key msg) =
     Some (r\<lparr>last_latitude := pos_field msg ''Latitude'',
             last_longitude := pos_field msg ''Longitude'',
             last_speed := js_or (pos_field msg ''Sog'') (JNum 0),
             last_heading := js_or (pos_field msg ''TrueHeading'') (JNum 0),
             last_position_time := Some (now 1), updated_at := Some (now 1)\<rparr>)"
  by (simp add: position_writes_def upsert_vessel_position_def insert_position_def mmsi_key_def)

lemma ais_positions_static_writes:
  "ais_positions (static_writes rv now msg st) = ais_positions st"
  by (simp add: static_writes_def upsert_vessel_static_def)

lemma next_id_static_writes:
  "next_id (static_writes rv now msg st) = next_id st"
  by (simp add: static_writes_def upsert_vessel_static_def)

lemma vessels_static_writes_other:
  "k \<noteq> mmsi_key msg \<Longrightarrow> vessels (static_writes rv now msg st) k = vessels st k"
  by (simp add: static_writes_def upsert_vessel_static_def mmsi_key_def)


lemma vessels_static_writes_old:
  "vessels st (mmsi_key msg) = Some r \<Longrightarrow>
   vessels (static_writes rv now msg st) (mmsi_key msg) =
     Some (r\<lparr>name := static_name msg,
             callsign := js_or (ship_field msg ''CallSign'') JNull, imo := static_imo msg,
             vessel_type := static_type rv msg,
             length_col := dimension_param (ship_field msg ''Dimension'') ''A'' ''B'',
             width := dimension_param (ship_field msg ''Dimension'') ''C'' ''D'',
             updated_at := Some (now 2)\<rparr>)"
  by (simp add: static_writes_def upsert_vessel_static_def mmsi_key_def static_name_def
      static_imo_def static_type_def)

subsection \<open>Evaluation on the sample messages\<close>

lemma sample_key [simp]: "number_to_string 259000420 = ''259000420''"
  by (simp add: number_to_string_def digits.simps digit_char_def)

lemma number_to_string_0 [simp]: "number_to_string 0 = ''0''"
  by (simp add: number_to_string_def digits.simps digit_char_def)

lemma msg_type_position_message [simp]:
  "msg_type (position_message report meta) = JStr ''PositionReport''"
  by (simp add: msg_type_def position_message_def)

lemma meta_field_position_message [simp]:
  "meta_field (position_message report meta) k = js_get_opt (JObj meta) k"
  by (simp add: meta_field_def position_message_def)

lemma pos_field_position_message [simp]:
  "pos_field (position_message report meta) k = js_get_opt (JObj report) k"
  by (simp add: pos_field_def position_message_def)

lemma msg_type_static_message [simp]:
  "msg_type (static_message ship meta) = JStr ''ShipStaticData''"
  by (simp add: msg_type_def static_message_def)

lemma meta_field_static_message [simp]:
  "meta_field (static_message ship meta) k = js_get_opt (JObj meta) k"
  by (simp add: meta_field_def static_message_def)

lemma ship_field_static_message [simp]:
  "ship_field (static_message ship meta) k = js_get_opt (JObj ship) k"
  by (simp add: ship_field_def static_message_def)

lemma position_guard_position_message:
  "position_guard (position_message report meta) =
     (truthy (js_get_opt (JObj meta) ''MMSI'') \<and> truthy (js_get_opt (JObj report) ''Latitude'') \<and>
      truthy (js_get_opt (JObj report) ''Longitude''))"
  by (auto simp: position_guard_def) (simp_all add: position_message_def)


lemma sample_position_guard: "position_guard (position_message sample_report (sample_meta utc))"
  by (simp add: position_guard_position_message sample_report_def sample_meta_def)



subsection \<open>Position reports that are stored, and one that is not\<close>

text \<open>
  What the handler does with a position report that passes the guard: one history row
  is appended, and the vessel row of the report holds its latitude, longitude, speed
  and heading.
\<close>

lemma valid_position_stored:
  assumes "position_guard msg"
  shows "\<exists>r v. ais_positions (result (on_message rv now (Inr msg) st)) = ais_positions st @ [r] \<and>
           mmsi r = mmsi_key msg \<and>
           latitude r = pos_field msg ''Latitude'' \<and> longitude r = pos_field msg ''Longitude'' \<and>
           vessels (result (on_message rv now (Inr msg) st)) (mmsi_key msg) = Some v \<and>
           last_latitude v = pos_field msg ''Latitude'' \<and>
           last_longitude v = pos_field msg ''Longitude'' \<and>
           last_speed v = js_or (pos_field msg ''Sog'') (JNum 0) \<and>
           last_heading v = js_or (pos_field msg ''TrueHeading'') (JNum 0)"
  using assms
  by (cases "vessels st (mmsi_key msg)")
     (simp_all add: result_position ais_positions_position_writes
        vessels_position_writes_new vessels_position_writes_old)

text \<open>
  C1, at a message whose latitude is the number 0: the latitude is neither absent nor
  \<^verbatim>\<open>null\<close> and the identity key is present, yet the guard
  \<^verbatim>\<open>meta?.MMSI && pos.Latitude && pos.Longitude\<close> is false, and the handler leaves
  the store as it was: no history row, no vessel row.
\<close>

theorem equator_position_dropped:
  "\<not> nullish (pos_field equator_message ''Latitude'') \<and>
   \<not> nullish (pos_field equator_message ''Longitude'') \<and>
   truthy (meta_field equator_message ''MMSI'') \<and>
   result (on_message rv now (Inr equator_message) st) = st"
  by (simp add: result_on_message position_guard_def static_guard_def equator_message_def
      msg_type_def meta_field_def pos_field_def nullish_def)

subsection \<open>Messages that are dropped\<close>

text \<open>
  C2. A message that is malformed or lacks a required field (identity key, latitude or
  longitude for a position report; identity key for a static report) leaves both tables
  and the sequence as they were, and no error leaves the handler.
\<close>

theorem invalid_message_writes_nothing:
  assumes "invalid_message parsed"
  shows "result (on_message rv now parsed st) = st \<and>
         escaped (on_message rv now parsed st) = None"
proof (cases parsed)
  case (Inl e)
  then show ?thesis by (simp add: result_on_message escaped_on_message)
next
  case (Inr msg)
  with assms have "\<not> position_guard msg \<and> \<not> static_guard msg"
    by (auto simp: invalid_message_def position_guard_def static_guard_def
        dest: nullish_not_truthy not_object_no_guard)
  with Inr show ?thesis by (simp add: result_on_message escaped_on_message)
qed

theorem invalid_message_writes_nothing_witness:
  "invalid_message (Inr no_latitude_message) \<and>
   result (on_message AllVessels sample_clock (Inr no_latitude_message) empty_store) = empty_store \<and>
   escaped (on_message AllVessels sample_clock (Inr no_latitude_message) empty_store) = None \<and>
   invalid_message (Inl SyntaxError) \<and>
   result (on_message YachtsOnly sample_clock (Inl SyntaxError) empty_store) = empty_store"
proof -
  have h1: "invalid_message (Inr no_latitude_message)"
    by (simp add: invalid_message_def no_latitude_message_def msg_type_def meta_field_def
        pos_field_def nullish_def)
  have h2: "invalid_message (Inl SyntaxError)"
    by (simp add: invalid_message_def)
  from invalid_message_writes_nothing [OF h1, of AllVessels sample_clock empty_store]
    invalid_message_writes_nothing [OF h2, of YachtsOnly sample_clock empty_store] h1 h2
  show ?thesis by simp
qed

subsection \<open>Field-merge isolation\<close>

text \<open>
  C3. For every vessel row and every message the handler is given: the row is still
  there afterwards; a position report leaves its name, call sign, registry number,
  vessel type, length and width as they were, and a static report leaves its last
  latitude, last longitude, last speed, last heading and last position time as they
  were.
\<close>

theorem field_merge_isolation:
  assumes "vessels st k = Some r"
  shows "\<exists>r'. vessels (result (on_message rv now (Inr msg) st)) k = Some r' \<and>
           flag r' = flag r \<and>
           (msg_type msg = JStr ''PositionReport'' \<longrightarrow>
              name r' = name r \<and> callsign r' = callsign r \<and> imo r' = imo r \<and>
              vessel_type r' = vessel_type r \<and> length_col r' = length_col r \<and>
              width r' = width r) \<and>
           (msg_type msg = JStr ''ShipStaticData'' \<longrightarrow>
              last_latitude r' = last_latitude r \<and> last_longitude r' = last_longitude r \<and>
              last_speed r' = last_speed r \<and> last_heading r' = last_heading r \<and>
              last_position_time r' = last_position_time r)"
proof (cases "position_guard msg")
  case True
  then have mt: "msg_type msg = JStr ''PositionReport''"
    by (simp add: position_guard_def)
  show ?thesis
  proof (cases "k = mmsi_key msg")
    case True
    with assms \<open>position_guard msg\<close> mt show ?thesis
      by (simp add: result_on_message vessels_position_writes_old)
  next
    case False
    with assms \<open>position_guard msg\<close> mt show ?thesis
      by (simp add: result_on_message vessels_position_writes_other)
  qed
next
  case npg: False
  show ?thesis
  proof (cases "static_guard msg")
    case True
    then have mt: "msg_type msg = JStr ''ShipStaticData''"
      by (simp add: static_guard_def)
    show ?thesis
    proof (cases "k = mmsi_key msg")
      case True
      with assms npg \<open>static_guard msg\<close> mt show ?thesis
        by (simp add: result_on_message vessels_static_writes_old)
    next
      case False
      with assms npg \<open>static_guard msg\<close> mt show ?thesis
        by (simp add: result_on_message vessels_static_writes_other)
    qed
  next
    case False
    with assms npg show ?thesis
      by (simp add: result_on_message)
  qed
qed

theorem field_merge_isolation_witness:
  "vessels sample_store ''259000420'' = Some sample_vessel \<and>
   (\<exists>r'. vessels (result (on_message AllVessels sample_clock
              (Inr (position_message sample_report (sample_meta ''2022-12-29 18:22:32 UTC'')))
              sample_store)) ''259000420'' = Some r' \<and>
      name r' = JStr ''AURORA'' \<and> callsign r' = JStr ''LK1234'' \<and> imo r' = JStr ''9123456'' \<and>
      vessel_type r' = JStr ''36'' \<and> length_col r' = JNum 15 \<and> width r' = JNum 2) \<and>
   (\<exists>r'. vessels (result (on_message AllVessels sample_clock
              (Inr (static_message sample_ship (sample_meta ''2022-12-29 18:22:32 UTC'')))
              sample_store)) ''259000420'' = Some r' \<and>
      last_latitude r' = JNum 9 \<and> last_longitude r' = JNum 19 \<and> last_speed r' = JNum 5 \<and>
      last_heading r' = JNum 80 \<and> last_position_time r' = Some 500)"
proof -
  have h: "vessels sample_store ''259000420'' = Some sample_vessel"
    by (simp add: sample_store_def)
  let ?p = "position_message sample_report (sample_meta ''2022-12-29 18:22:32 UTC'')"
  let ?s = "static_message sample_ship (sample_meta ''2022-12-29 18:22:32 UTC'')"
  from field_merge_isolation [OF h, of AllVessels sample_clock ?p]
    field_merge_isolation [OF h, of AllVessels sample_clock ?s] h
  show ?thesis by (auto simp: sample_vessel_def)
qed

subsection \<open>Idempotence of the static upsert\<close>



subsection \<open>The report timestamp\<close>

text \<open>
  C7 fails as stated. Two position reports that differ only in the time the source
  asserts (\<^verbatim>\<open>MetaData.time_utc\<close>), handled at clock reading 1000, both get 1000 in the
  \<^verbatim>\<open>timestamp\<close> column, and that is also the value of \<^verbatim>\<open>created_at\<close>.
\<close>

theorem report_timestamp_counterexample:
  "map timestamp (ais_positions (result (on_message AllVessels sample_clock
      (Inr (position_message sample_report (sample_meta ''2022-12-29 18:22:32.318353 +0000 UTC'')))
      empty_store))) = [1000] \<and>
   map created_at (ais_positions (result (on_message AllVessels sample_clock
      (Inr (position_message sample_report (sample_meta ''2022-12-29 18:22:32.318353 +0000 UTC'')))
      empty_store))) = [Some 1000] \<and>
   map timestamp (ais_positions (result (on_message AllVessels sample_clock
      (Inr (position_message sample_report (sample_meta ''2021-01-01 00:00:00.000000 +0000 UTC'')))
      empty_store))) = [1000]"
  by (simp add: result_position sample_position_guard ais_positions_position_writes
      empty_store_def sample_clock_def)

text \<open>
  C7 as amended. Every history row the handler appends holds, in its \<^verbatim>\<open>timestamp\<close>
  column, the store's clock at the insert (\<^verbatim>\<open>NOW()\<close>), which is also the value of its
  ingestion timestamp \<^verbatim>\<open>created_at\<close>; nothing of the message enters either column.
\<close>

theorem report_timestamp_is_store_clock:
  "\<exists>new. ais_positions (result (on_message rv now parsed st)) = ais_positions st @ new \<and>
          length new \<le> 1 \<and>
          (\<forall>r \<in> set new. timestamp r = now 0 \<and> created_at r = Some (now 0))"
proof (cases parsed)
  case (Inl e)
  then show ?thesis by (simp add: result_on_message)
next
  case (Inr msg)
  then show ?thesis
    by (simp add: result_on_message ais_positions_position_writes ais_positions_static_writes)
qed

theorem report_timestamp_is_store_clock_witness:
  "\<exists>new. ais_positions (result (on_message AllVessels sample_clock
      (Inr (position_message sample_report (sample_meta ''2022-12-29 18:22:32.318353 +0000 UTC'')))
      empty_store)) = new \<and> length new = 1 \<and>
      list_all (\<lambda>r. timestamp r = 1000 \<and> created_at r = Some 1000) new"
  using report_timestamp_is_store_clock [of AllVessels sample_clock
      "Inr (position_message sample_report (sample_meta ''2022-12-29 18:22:32.318353 +0000 UTC''))"
      empty_store]
  by (auto simp: result_position sample_position_guard ais_positions_position_writes
      empty_store_def sample_clock_def)

subsection \<open>Defaults of the position record\<close>





section \<open>Properties of the retention steps\<close>

subsection \<open>The age-based step\<close>

lemma older_than_48h_iff: "older_than_48h now r = more_than_48h_old now r"
  by (auto simp: older_than_48h_def more_than_48h_old_def hours48_def hour_def split: option.splits)

text \<open>
  C5. For every state of the history table, the age-based step removes exactly the rows
  whose ingestion timestamp is more than 48 hours old and keeps all others, in their
  order; it reports the number of rows removed and leaves the vessel table alone. In
  particular, of two rows ingested at T-72h and T-1h, the step at T deletes only the
  first.
\<close>

theorem age_step_deletes_exactly:
  "ais_positions (age_step now st) =
     filter (\<lambda>r. \<not> more_than_48h_old now r) (ais_positions st) \<and>
   vessels (age_step now st) = vessels st \<and>
   age_step_rowCount now st =
     length (filter (more_than_48h_old now) (ais_positions st)) \<and>
   (created_at r72 = Some (T - 72 * hour) \<and> created_at r1 = Some (T - 1 * hour) \<longrightarrow>
      ais_positions (age_step T (st\<lparr>ais_positions := [r72, r1]\<rparr>)) = [r1])"
proof -
  have older: "older_than_48h now = more_than_48h_old now" for now
    by (rule ext) (rule older_than_48h_iff)
  have rows: "ais_positions (age_step now st) =
      filter (\<lambda>r. \<not> more_than_48h_old now r) (ais_positions st)"
    by (simp add: age_step_def older)
  have count: "age_step_rowCount now st =
      length (filter (more_than_48h_old now) (ais_positions st))"
    by (simp add: age_step_rowCount_def older)
  have two: "ais_positions (age_step T (st\<lparr>ais_positions := [r72, r1]\<rparr>)) = [r1]"
    if "created_at r72 = Some (T - 72 * hour)" and "created_at r1 = Some (T - 1 * hour)"
    using that by (simp add: age_step_def older more_than_48h_old_def hour_def)
  from rows count two show ?thesis
    by (simp add: age_step_def)
qed

theorem age_step_deletes_exactly_witness:
  "created_at (history_row 1 (1000000000000 - 72 * hour)) = Some (1000000000000 - 72 * hour) \<and>
   created_at (history_row 2 (1000000000000 - 1 * hour)) = Some (1000000000000 - 1 * hour) \<and>
   ais_positions (age_step 1000000000000
      (empty_store\<lparr>ais_positions := [history_row 1 (1000000000000 - 72 * hour),
                                      history_row 2 (1000000000000 - 1 * hour)]\<rparr>))
     = [history_row 2 (1000000000000 - 1 * hour)]"
  using age_step_deletes_exactly [of 1000000000000 empty_store
      "history_row 1 (1000000000000 - 72 * hour)" 1000000000000
      "history_row 2 (1000000000000 - 1 * hour)"]
  by (simp add: history_row_def)

subsection \<open>The size-based step\<close>

text \<open>
  \<^verbatim>\<open>Math.ceil(count * 0.1)\<close>, computed on doubles, is the ceiling of a tenth of the
  count for every count below \<open>2^52\<close>.
\<close>

lemma bit_length_le: "bit_length n \<le> b \<longleftrightarrow> n < 2 ^ b"
proof (induction n arbitrary: b rule: bit_length.induct)
  case (1 n)
  show ?case
  proof (cases "n = 0")
    case True
    then show ?thesis by (simp add: bit_length.simps)
  next
    case False
    show ?thesis
    proof (cases b)
      case 0
      with False show ?thesis by (simp add: bit_length.simps)
    next
      case (Suc b')
      have "bit_length n \<le> b \<longleftrightarrow> bit_length (n div 2) \<le> b'"
        using False Suc by (subst bit_length.simps) simp
      also have "\<dots> \<longleftrightarrow> n div 2 < 2 ^ b'"
        using "1.IH" [OF False] .
      also have "\<dots> \<longleftrightarrow> n < 2 ^ b"
        using Suc by auto
      finally show ?thesis .
    qed
  qed
qed

lemma round53_small: "N < 2 ^ 53 \<Longrightarrow> round53 N = N"
  by (simp add: round53_def bit_length_le)

lemma round53_big:
  assumes "\<not> N < 2 ^ 53"
  shows "\<exists>s. 1 \<le> s \<and> 2 ^ (s + 52) \<le> N \<and> N < 2 ^ (s + 53) \<and> round53 N = round_at s N"
proof -
  define s where "s = bit_length N - 53"
  from assms have big: "\<not> bit_length N \<le> 53" by (simp add: bit_length_le)
  then have s1: "1 \<le> s" and bl: "bit_length N = s + 53" by (simp_all add: s_def)
  have up: "N < 2 ^ (s + 53)"
    using bit_length_le [of N "s + 53"] bl by simp
  have "\<not> bit_length N \<le> s + 52" using bl by simp
  then have lo: "2 ^ (s + 52) \<le> N"
    using bit_length_le [of N "s + 52"] by simp
  have "round53 N = round_at s N"
    using big by (simp add: round53_def round_at_def s_def Let_def)
  with s1 lo up show ?thesis by blast
qed

lemma round_at_lower: "N \<le> round_at s N + 2 ^ (s - 1)"
proof -
  define q where "q = N div 2 ^ s"
  define r where "r = N mod 2 ^ s"
  have N: "N = q * 2 ^ s + r"
    unfolding q_def r_def by (rule div_mult_mod_eq [symmetric])
  have r: "r < 2 ^ s" by (simp add: r_def)
  show ?thesis
  proof (cases "r > 2 ^ (s - 1) \<or> (r = 2 ^ (s - 1) \<and> odd q)")
    case True
    then have "round_at s N = (q + 1) * 2 ^ s"
      by (simp add: round_at_def q_def r_def)
    with N r show ?thesis by simp
  next
    case False
    then have "round_at s N = q * 2 ^ s"
      by (auto simp add: round_at_def q_def r_def)
    moreover from False have "r \<le> 2 ^ (s - 1)" by auto
    ultimately show ?thesis using N by simp
  qed
qed

lemma round_at_upper:
  assumes "N \<le> m * 2 ^ s" and "1 \<le> s"
  shows "round_at s N \<le> m * 2 ^ s"
proof -
  define q where "q = N div 2 ^ s"
  define r where "r = N mod 2 ^ s"
  have N: "N = q * 2 ^ s + r"
    unfolding q_def r_def by (rule div_mult_mod_eq [symmetric])
  have "q \<le> m"
    using assms(1) by (simp add: q_def div_le_mono[of N "m * 2 ^ s" "2 ^ s", simplified])
  show ?thesis
  proof (cases "q = m")
    case True
    with N assms(1) have "r = 0" by simp
    moreover have "(0::nat) < 2 ^ (s - 1)" by simp
    ultimately have "round_at s N = q * 2 ^ s"
      by (simp add: round_at_def q_def r_def)
    with True show ?thesis by simp
  next
    case False
    with \<open>q \<le> m\<close> have "q + 1 \<le> m" by simp
    then have "(q + 1) * 2 ^ s \<le> m * 2 ^ s"
      by (rule mult_le_mono1)
    moreover have "round_at s N \<le> (q + 1) * 2 ^ s"
      by (simp add: round_at_def q_def)
    ultimately show ?thesis by simp
  qed
qed

lemma round_at_exact:
  assumes "N = m * 2 ^ s + d" and "d < 2 ^ (s - 1)" and "1 \<le> s"
  shows "round_at s N = m * 2 ^ s"
proof -
  have "(2::nat) ^ (s - 1) \<le> 2 ^ s" by (rule power_increasing) simp_all
  with assms(2) have d: "d < 2 ^ s" by (rule less_le_trans)
  have q: "N div 2 ^ s = m" using assms(1) d by simp
  have r: "N mod 2 ^ s = d" using assms(1) d by simp
  show ?thesis using assms(2) by (simp add: round_at_def q r)
qed

lemma ceil_times_tenth_eq:
  assumes nb: "n < 2 ^ 52"
  shows "ceil_times_tenth n = (n + 9) div 10"
proof -
  define M :: nat where "M = 3602879701896397"
  define B :: nat where "B = 36028797018963968"
  define N where "N = n * M"
  define k where "k = n div 10"
  define r where "r = n mod 10"
  have B: "B = 2 ^ 55" by (simp add: B_def)
  have n: "n = 10 * k + r" and r: "r < 10" by (simp_all add: k_def r_def)
  have nb': "n < 4503599627370496" using nb by simp
  have N: "N = k * B + 2 * k + r * M"
    by (simp add: N_def n M_def B_def algebra_simps)
  have goal: "ceil_times_tenth n = (round53 N + (B - 1)) div B"
    by (simp add: ceil_times_tenth_def tenth_significand_def N_def M_def B_def)
  show ?thesis
  proof (cases "N < 2 ^ 53")
    case True
    then have R: "round53 N = N" by (rule round53_small)
    from True have "n * M < 9007199254740992" by (simp add: N_def)
    then have "n \<le> 2" by (simp add: M_def)
    then have "n = 0 \<or> n = 1 \<or> n = 2" by auto
    moreover have "ceil_times_tenth n = (n * M + (B - 1)) div B"
      using R by (simp add: goal N_def)
    ultimately show ?thesis
      by (auto simp: M_def B_def)
  next
    case False
    from round53_big [OF False] obtain s where s1: "1 \<le> s"
      and lo: "2 ^ (s + 52) \<le> N" and up: "N < 2 ^ (s + 53)" and R: "round53 N = round_at s N"
      by blast
    define P :: nat where "P = 2 ^ (s - 1)"
    have Ppos: "0 < P" by (simp add: P_def)
    have two_s: "(2::nat) ^ s = 2 * P"
      using s1 by (simp add: P_def power_eq_if)
    have lo': "P * 9007199254740992 \<le> N"
      using lo by (simp add: power_add two_s)
    have up': "N < P * 18014398509481984"
      using up by (simp add: power_add two_s)
    have NM: "N < 4503599627370496 * M"
      using nb' by (simp add: N_def M_def)
    have PM: "2 * P < M"
      using lo' NM by (simp add: M_def)
    have "(2::nat) ^ (s + 52) < 2 ^ 104"
      using lo NM by (simp add: M_def)
    then have "s + 52 < 104"
      by (rule power_less_imp_less_exp [rotated]) simp
    then have s55: "s \<le> 55" by simp
    have Bs: "B = 2 ^ (55 - s) * 2 ^ s"
      using s55 by (simp add: B flip: power_add)
    show ?thesis
    proof (cases "r = 0")
      case True
      have kpos: "0 < k"
      proof (rule ccontr)
        assume "\<not> 0 < k"
        with True N have "N = 0" by simp
        with False show False by simp
      qed
      have "k * B \<le> N" using N by simp
      with up' have kP: "k * B < P * 18014398509481984" by simp
      then have "2 * k < P" by (simp add: B_def)
      then have d: "2 * k < 2 ^ (s - 1)" by (simp add: P_def)
      have "N = (k * 2 ^ (55 - s)) * 2 ^ s + 2 * k"
        using N True Bs by (simp add: mult.assoc)
      from round_at_exact [OF this d s1] have "round53 N = k * B"
        using R Bs by (simp add: mult.assoc)
      then have "ceil_times_tenth n = (k * B + (B - 1)) div B"
        by (simp add: goal)
      also have "\<dots> = k" by (simp add: B_def)
      also have "\<dots> = (n + 9) div 10" using n True by simp
      finally show ?thesis .
    next
      case rpos: False
      have low: "N \<le> round53 N + P"
        using round_at_lower [of N s] R by (simp add: P_def)
      have "k * B + 2 * k + M \<le> N"
        using N rpos by (simp add: M_def)
      with low PM have gt: "k * B < round53 N" by simp
      have "r * M \<le> 9 * M" using r by simp
      moreover have "2 * k < 900719925474100" using nb' n by simp
      ultimately have NB: "N \<le> (k + 1) * B"
        using N by (simp add: M_def B_def)
      have eqB: "(k + 1) * B = ((k + 1) * 2 ^ (55 - s)) * 2 ^ s"
        by (subst Bs) (rule mult.assoc [symmetric])
      from NB have "N \<le> ((k + 1) * 2 ^ (55 - s)) * 2 ^ s"
        unfolding eqB .
      from round_at_upper [OF this s1] have le: "round53 N \<le> (k + 1) * B"
        unfolding eqB R .
      have "(round53 N + (B - 1)) div B = k + 1"
      proof (rule div_nat_eqI)
        show "B * (k + 1) \<le> round53 N + (B - 1)"
          using gt by (simp add: B_def)
        show "round53 N + (B - 1) < B * Suc (k + 1)"
          using le by (simp add: B_def)
      qed
      moreover have "(n + 9) div 10 = k + 1"
        using n r rpos by simp
      ultimately show ?thesis by (simp add: goal)
    qed
  qed
qed

lemma ceiling_tenth: "nat \<lceil>0.1 * real n\<rceil> = (n + 9) div 10"
proof -
  define k where "k = n div 10"
  define r where "r = n mod 10"
  have n: "n = 10 * k + r" and r: "r < 10" by (simp_all add: k_def r_def)
  have "\<lceil>0.1 * real n\<rceil> = int ((n + 9) div 10)"
  proof (rule ceiling_unique)
    show "real_of_int (int ((n + 9) div 10)) - 1 < 0.1 * real n"
      using n r by (cases "r = 0") simp_all
    show "0.1 * real n \<le> real_of_int (int ((n + 9) div 10))"
      using n r by (cases "r = 0") simp_all
  qed
  then show ?thesis by simp
qed

lemma valid_history_length:
  assumes "valid_history rows"
  shows "length rows < 2 ^ 52"
proof -
  from assms have d: "distinct (map id_col rows)"
    and b: "\<forall>r \<in> set rows. id_col r \<le> 2147483647"
    by (simp_all add: valid_history_def list_all_iff)
  have "length rows = card (set (map id_col rows))"
    using d distinct_card [of "map id_col rows"] by simp
  also have "\<dots> \<le> card {.. (2147483647::nat)}"
    using b by (intro card_mono) auto
  also have "\<dots> < 2 ^ 52" by simp
  finally show ?thesis .
qed

lemma delete_oldest_rows:
  assumes d: "distinct (map id_col (ais_positions st))"
  shows "ais_positions (delete_oldest c st) =
           filter (\<lambda>r. r \<notin> set (take c (sort_key created_at_key (ais_positions st))))
             (ais_positions st)"
proof -
  let ?rows = "ais_positions st"
  let ?T = "take c (sort_key created_at_key ?rows)"
  have inj: "inj_on id_col (set ?rows)" and "distinct ?rows"
    using d by (simp_all add: distinct_map)
  have sub: "set ?T \<subseteq> set ?rows"
    using set_take_subset [of c "sort_key created_at_key ?rows"] by simp
  have "id_col r \<in> set (map id_col ?T) \<longleftrightarrow> r \<in> set ?T" if "r \<in> set ?rows" for r
  proof
    assume "id_col r \<in> set (map id_col ?T)"
    then obtain t where t: "t \<in> set ?T" "id_col t = id_col r" by auto
    with sub have "t \<in> set ?rows" by blast
    with inj that t(2) have "t = r" by (auto dest: inj_onD)
    with t(1) show "r \<in> set ?T" by simp
  next
    assume "r \<in> set ?T"
    then show "id_col r \<in> set (map id_col ?T)" by simp
  qed
  then have "filter (\<lambda>r. id_col r \<notin> set (map id_col ?T)) ?rows =
             filter (\<lambda>r. r \<notin> set ?T) ?rows"
    by (intro filter_cong) auto
  then show ?thesis
    by (simp add: delete_oldest_def oldest_ids_def)
qed

lemma take_sorted_oldest:
  assumes "d \<in> set (take c (sort_key f xs))" and "k \<in> set xs"
    and "k \<notin> set (take c (sort_key f xs))"
  shows "f d \<le> f k"
proof -
  let ?s = "sort_key f xs"
  have "set ?s = set (take c ?s) \<union> set (drop c ?s)"
    by (metis append_take_drop_id set_append)
  with assms(2,3) have k: "k \<in> set (drop c ?s)" by simp
  have "sorted (map f (take c ?s @ drop c ?s))" by simp
  then have "\<forall>x \<in> set (map f (take c ?s)). \<forall>y \<in> set (map f (drop c ?s)). x \<le> y"
    unfolding map_append sorted_append by blast
  with assms(1) k show ?thesis by simp
qed

lemma size_step_above:
  "70 * 1024 ^ 3 < size_bytes \<Longrightarrow>
   size_step size_bytes st = delete_oldest (ceil_times_tenth (length (ais_positions st))) st"
  by (simp add: size_step_def Let_def)

lemma size_step_below:
  "size_bytes \<le> 70 * 1024 ^ 3 \<Longrightarrow> size_step size_bytes st = st"
  by (simp add: size_step_def Let_def)

lemma created_at_key_le:
  "created_at_key d \<le> created_at_key k \<longleftrightarrow>
     (case created_at d of
        None \<Rightarrow> created_at k = None
      | Some a \<Rightarrow> (case created_at k of None \<Rightarrow> True | Some b \<Rightarrow> a \<le> b))"
  by (auto simp: created_at_key_def split: option.splits)

text \<open>
  C6. When the measured storage size exceeds 70 GiB, the size-based step deletes
  exactly \<open>\<lceil>0.1 * n\<rceil>\<close> rows, \<open>n\<close> being the number of history rows at that moment, and
  every deleted row is at least as old, by its ingestion timestamp \<^verbatim>\<open>created_at\<close>, as
  every row that is kept: the timestamp of a deleted row is not later than that of a
  kept row, and a row without ingestion timestamp is deleted only when no kept row
  has one (\<^verbatim>\<open>ORDER BY created_at ASC\<close> puts NULL last); the vessel table is left
  alone. When the size is at most 70 GiB the step changes nothing.
\<close>

theorem size_step_oldest_tenth:
  fixes st :: store and size_bytes :: nat
  assumes v: "valid_history (ais_positions st)"
  defines "rows \<equiv> ais_positions st"
    and "kept \<equiv> ais_positions (size_step size_bytes st)"
  defines "deleted \<equiv> filter (\<lambda>r. r \<notin> set kept) rows"
  shows "(70 * 1024 ^ 3 < size_bytes \<longrightarrow>
            length deleted = nat \<lceil>0.1 * real (length rows)\<rceil> \<and>
            kept = filter (\<lambda>r. r \<notin> set deleted) rows \<and>
            (\<forall>d \<in> set deleted. \<forall>k \<in> set kept.
               case created_at d of
                 None \<Rightarrow> created_at k = None
               | Some a \<Rightarrow> (case created_at k of None \<Rightarrow> True | Some b \<Rightarrow> a \<le> b)) \<and>
            vessels (size_step size_bytes st) = vessels st) \<and>
         (size_bytes \<le> 70 * 1024 ^ 3 \<longrightarrow> size_step size_bytes st = st)"
proof (intro conjI impI)
  assume "size_bytes \<le> 70 * 1024 ^ 3"
  then show "size_step size_bytes st = st" by (rule size_step_below)
next
  assume big: "70 * 1024 ^ 3 < size_bytes"
  define c where "c = ceil_times_tenth (length rows)"
  define T where "T = take c (sort_key created_at_key rows)"
  from v have d: "distinct (map id_col rows)"
    by (simp add: valid_history_def rows_def)
  then have dr: "distinct rows" by (simp add: distinct_map)
  have c: "c = (length rows + 9) div 10"
    using valid_history_length [OF v] by (simp add: c_def rows_def ceil_times_tenth_eq)
  then have cn: "c \<le> length rows" by simp
  have step: "size_step size_bytes st = delete_oldest c st"
    using big by (simp add: size_step_above c_def rows_def)
  have kept: "kept = filter (\<lambda>r. r \<notin> set T) rows"
    using d by (simp add: kept_def step delete_oldest_rows T_def rows_def)
  have sub: "set T \<subseteq> set rows"
    using set_take_subset [of c "sort_key created_at_key rows"] by (simp add: T_def)
  have del: "deleted = filter (\<lambda>r. r \<in> set T) rows"
    unfolding deleted_def by (rule filter_cong) (auto simp: kept)
  with sub have sdel: "set deleted = set T" by auto
  have "distinct deleted" using dr by (simp add: del)
  then have "length deleted = card (set T)"
    using distinct_card [of deleted] by (simp add: sdel)
  also have "\<dots> = length T"
    using dr by (simp add: T_def distinct_card)
  also have "\<dots> = c" using cn by (simp add: T_def)
  finally have "length deleted = c" .
  then show "length deleted = nat \<lceil>0.1 * real (length rows)\<rceil>"
    by (simp only: c ceiling_tenth)
  show "kept = filter (\<lambda>r. r \<notin> set deleted) rows"
    by (simp add: kept sdel)
  have "\<forall>d \<in> set deleted. \<forall>k \<in> set kept. created_at_key d \<le> created_at_key k"
    using take_sorted_oldest [of _ c created_at_key rows]
    by (auto simp: sdel kept T_def)
  then show "\<forall>d \<in> set deleted. \<forall>k \<in> set kept.
               case created_at d of
                 None \<Rightarrow> created_at k = None
               | Some a \<Rightarrow> (case created_at k of None \<Rightarrow> True | Some b \<Rightarrow> a \<le> b)"
    by (simp only: created_at_key_le)
  show "vessels (size_step size_bytes st) = vessels st"
    by (simp add: step delete_oldest_def)
qed

lemma history_store_step:
  "ais_positions (size_step (80 * 1024 ^ 3) history_store) = [history_row 1 300, history_row 3 200]"
proof -
  have "ceil_times_tenth (length (ais_positions history_store)) = 1"
    by (simp add: history_store_def ceil_times_tenth_eq)
  then show ?thesis
    by (simp add: size_step_above delete_oldest_def oldest_ids_def)
       (simp add: history_store_def history_row_def created_at_key_def)
qed

theorem size_step_oldest_tenth_witness:
  "valid_history (ais_positions history_store) \<and>
   (70::nat) * 1024 ^ 3 < 80 * 1024 ^ 3 \<and>
   ais_positions history_store = [history_row 1 300, history_row 2 100, history_row 3 200] \<and>
   ais_positions (size_step (80 * 1024 ^ 3) history_store) = [history_row 1 300, history_row 3 200] \<and>
   filter (\<lambda>r. r \<notin> set (ais_positions (size_step (80 * 1024 ^ 3) history_store)))
          (ais_positions history_store) = [history_row 2 100] \<and>
   length (filter (\<lambda>r. r \<notin> set (ais_positions (size_step (80 * 1024 ^ 3) history_store)))
             (ais_positions history_store)) = nat \<lceil>0.1 * real (3::nat)\<rceil> \<and>
   size_step (70 * 1024 ^ 3) history_store = history_store"
proof -
  have v: "valid_history (ais_positions history_store)"
    by (simp add: valid_history_def history_store_def history_row_def)
  have n: "length (ais_positions history_store) = 3"
    by (simp add: history_store_def)
  have rows: "ais_positions history_store =
      [history_row 1 300, history_row 2 100, history_row 3 200]"
    by (simp add: history_store_def)
  have del: "filter (\<lambda>r. r \<notin> set (ais_positions (size_step (80 * 1024 ^ 3) history_store)))
          (ais_positions history_store) = [history_row 2 100]"
    unfolding history_store_step by (simp add: history_store_def history_row_def)
  from size_step_oldest_tenth [OF v, of "80 * 1024 ^ 3"]
    size_step_oldest_tenth [OF v, of "70 * 1024 ^ 3"]
  have "length (filter (\<lambda>r. r \<notin> set (ais_positions (size_step (80 * 1024 ^ 3) history_store)))
             (ais_positions history_store)) = nat \<lceil>0.1 * real (3::nat)\<rceil>"
    and "size_step (70 * 1024 ^ 3) history_store = history_store"
    by (simp_all add: n)
  with v rows del history_store_step show ?thesis by simp
qed

subsection \<open>The history ids stay distinct\<close>

text \<open>
  The handler and the retention run keep the ids of the history table distinct: an
  insert takes the next value of the sequence, a delete removes rows.
\<close>

lemma ids_fresh_on_message:
  assumes "ids_fresh st"
  shows "ids_fresh (result (on_message rv now parsed st))"
proof -
  have p: "ids_fresh (position_writes now msg st)" for msg
    using assms
    by (auto simp: ids_fresh_def ais_positions_position_writes list_all_iff
        position_writes_def upsert_vessel_position_def insert_position_def)
  have s: "ids_fresh (static_writes rv now msg st)" for msg
    using assms
    by (simp add: ids_fresh_def ais_positions_static_writes next_id_static_writes)
  show ?thesis
    using assms p s by (simp add: result_on_message split: sum.splits)
qed

lemma ids_fresh_cleanup:
  assumes "ids_fresh st"
  shows "ids_fresh (cleanupOldData now size_bytes st)"
proof -
  have "ids_fresh (st\<lparr>ais_positions := filter P (ais_positions st)\<rparr>)" for P
    using assms by (auto simp: ids_fresh_def distinct_map_filter list_all_iff)
  then show ?thesis
    by (simp add: cleanupOldData_def size_step_def age_step_def delete_oldest_def
        oldest_ids_def Let_def)
qed

section \<open>Properties of the numbers\<close>

subsection \<open>Evaluation on numerals\<close>

lemma bit_length_numeral:
  "bit_length (numeral k) = Suc (bit_length (numeral k div 2))"
  by (subst bit_length.simps) simp

lemma bit_length_small: "bit_length 0 = 0" "bit_length (Suc 0) = 1"
  by (simp_all add: bit_length.simps)

lemma digits_numeral:
  "digits (numeral k) = (if (numeral k :: nat) < 10 then [digit_char (numeral k)]
     else digits (numeral k div 10) @ [digit_char (numeral k mod 10)])"
  by (subst digits.simps) simp

lemma digits_small: "digits 0 = ''0''" "digits (Suc 0) = ''1''"
  by (simp_all add: digits.simps digit_char_def)

lemma shortest_numeral:
  "shortest a k (numeral f) =
     (case candidates a k of
        [] \<Rightarrow> shortest a (Suc k) (pred_numeral f)
      | c # cs \<Rightarrow> (k, foldl (closer a k) c cs))"
  by (simp add: numeral_eq_Suc)

subsection \<open>The text of a double\<close>

text \<open>
  \<^verbatim>\<open>String\<close> of a double is the shortest decimal that reads back as it, in exponent
  notation from \<open>10^21\<close>: \<^verbatim>\<open>0.5\<close>, \<^verbatim>\<open>1e+21\<close>, \<^verbatim>\<open>0.1\<close> for the double nearest to one
  tenth, and \<^verbatim>\<open>0.30000000000000004\<close> for the double that the doubles nearest to 0.1 and
  0.2 add up to.
\<close>

lemma number_to_string_half: "number_to_string (1 / 2) = ''0.5''"
  by (simp add: number_to_string_def candidates_def decimal_exponent_def closer_def
      format_digits_def exponent_text_def round_double_def binary_exponent_def
      round_half_even_def bit_length_numeral bit_length_small digits_numeral digits_small
      digit_char_def Let_def power_int_def power_divide shortest_numeral)

lemma number_to_string_big: "number_to_string (10 ^ 21) = ''1e+21''"
  by (simp add: number_to_string_def candidates_def decimal_exponent_def closer_def
      format_digits_def exponent_text_def round_double_def binary_exponent_def
      round_half_even_def bit_length_numeral bit_length_small digits_numeral digits_small
      digit_char_def Let_def power_int_def power_divide shortest_numeral)

lemma number_to_string_tenth: "number_to_string (3602879701896397 / 2 ^ 55) = ''0.1''"
  by (simp add: number_to_string_def candidates_def decimal_exponent_def closer_def
      format_digits_def exponent_text_def round_double_def binary_exponent_def
      round_half_even_def bit_length_numeral bit_length_small digits_numeral digits_small
      digit_char_def Let_def power_int_def power_divide shortest_numeral)

lemma number_to_string_sum:
  "number_to_string (5404319552844596 / 2 ^ 54) = ''0.30000000000000004''"
  by (simp add: number_to_string_def candidates_def decimal_exponent_def closer_def
      format_digits_def exponent_text_def round_double_def binary_exponent_def
      round_half_even_def bit_length_numeral bit_length_small digits_numeral digits_small
      digit_char_def Let_def power_int_def power_divide shortest_numeral)

subsection \<open>The sum of two doubles\<close>

text \<open>
  The sum of two doubles is the exact sum rounded to a double: one added to \<open>2^53\<close> is
  lost, and the doubles nearest to 0.1 and 0.2 add up to the double above the one
  nearest to 0.3, which prints as \<^verbatim>\<open>0.30000000000000004\<close>.
\<close>

lemma js_add_rounds:
  "js_add (JNum 9007199254740992) (JNum 1) = JNum 9007199254740992"
  "js_add (JNum (3602879701896397 / 2 ^ 55)) (JNum (3602879701896397 / 2 ^ 54)) =
     JNum (5404319552844596 / 2 ^ 54)"
  by (simp_all add: js_add_def round_double_def binary_exponent_def round_half_even_def
      bit_length_numeral bit_length_small Let_def power_int_def power_divide)

section \<open>Properties of the dimensions of a static report\<close>












section \<open>Properties of the history endpoint\<close>








lemma starts_with_second:
  "starts_with s [a, b] \<Longrightarrow> b \<in> set s"
  by (cases s; cases "tl s") auto

lemma starts_with_first:
  "starts_with s [a] \<Longrightarrow> a \<in> set s"
  by (cases s) auto











lemma no_leading_space_Nil: "no_leading_space []"
  by (simp add: no_leading_space_def white_space_def)










lemma round53_limit: "n < 2 ^ 53 \<Longrightarrow> \<not> 2 ^ 1024 \<le> round53 n"
proof -
  assume a: "n < 2 ^ 53"
  have "(2::nat) ^ 53 \<le> 2 ^ 1024" by (rule power_increasing) simp_all
  with a show ?thesis by (simp add: round53_small)
qed











end
